theory Spec2Isabelle
  imports Complex_Main "HOL-Library.AList"
begin

section \<open>Python values and built-ins used by main.py\<close>

text \<open>
  Strings are lists of 8-bit characters. Exceptions are values of \<open>pyerror\<close>; a function
  that can raise returns \<open>pyerror + 'a\<close> with \<open>Inl\<close> for the exception.
\<close>

datatype pyerror = ValueError | TypeError | AttributeError | UnboundLocalError

text \<open>
  A Python float is represented by the exact number its literal denotes: \<open>Finite q\<close>
  stands for the IEEE double nearest to \<open>q\<close>. \<open>float()\<close> rounds correctly, so the double
  is a function of \<open>q\<close>, and two equal values of \<open>pyfloat\<close> are equal Python floats.
\<close>

datatype pyfloat = Finite rat | Infinity bool | NaN

definition is_digit :: "char \<Rightarrow> bool" where
  "is_digit c = (c \<in> set ''0123456789'')"

definition digit_val :: "char \<Rightarrow> nat" where
  "digit_val c = of_char c - 48"

text \<open>
  The whitespace that \<open>float()\<close> and \<open>int()\<close> strip from a string: the ASCII characters
  tab, line feed, vertical tab, form feed, carriage return and space, and the two
  characters above 127 that are Unicode whitespace (next line, no-break space).
\<close>

definition is_space :: "char \<Rightarrow> bool" where
  "is_space c = (c \<in> set [CHR 0x09, CHR 0x0A, CHR 0x0B, CHR 0x0C, CHR 0x0D, CHR 0x20,
                            CHR 0x85, CHR 0xA0])"

definition strip :: "string \<Rightarrow> string" where
  "strip s = rev (dropWhile is_space (rev (dropWhile is_space s)))"

text \<open>The grammar's \<open>digitpart ::= digit (["_"] digit)*\<close>.\<close>

fun digitpart :: "string \<Rightarrow> bool" where
  "digitpart [] = False"
| "digitpart [c] = is_digit c"
| "digitpart (c # d # cs) =
     (is_digit c \<and> (if d = CHR ''_'' then digitpart cs else digitpart (d # cs)))"

definition digits_val :: "string \<Rightarrow> nat" where
  "digits_val s = foldl (\<lambda>a c. 10 * a + digit_val c) 0 (filter is_digit s)"

definition lower :: "char \<Rightarrow> char" where
  "lower c =
     (case map_of (zip ''ABCDEFGHIJKLMNOPQRSTUVWXYZ'' ''abcdefghijklmnopqrstuvwxyz'') c of
        Some d \<Rightarrow> d
      | None \<Rightarrow> c)"

text \<open>\<open>exponent ::= ("e" | "E") [sign] digitpart\<close>, after the letter.\<close>

definition float_exponent :: "string \<Rightarrow> int option" where
  "float_exponent x =
     (case x of
        [] \<Rightarrow> None
      | c # y \<Rightarrow>
          if c = CHR ''+'' then (if digitpart y then Some (int (digits_val y)) else None)
          else if c = CHR ''-'' then (if digitpart y then Some (- int (digits_val y)) else None)
          else if digitpart x then Some (int (digits_val x)) else None)"

text \<open>\<open>number ::= [digitpart] "." digitpart | digitpart ["."]\<close>.\<close>

definition float_number :: "string \<Rightarrow> rat option" where
  "float_number m =
     (let ip = takeWhile (\<lambda>c. c \<noteq> CHR ''.'') m;
          fr = dropWhile (\<lambda>c. c \<noteq> CHR ''.'') m
      in if fr = [] then (if digitpart ip then Some (of_nat (digits_val ip)) else None)
         else let fp = tl fr in
           if (if ip = [] then digitpart fp
               else digitpart ip \<and> (fp = [] \<or> digitpart fp))
           then Some (of_nat (digits_val ip)
                      + of_nat (digits_val fp) / 10 ^ length (filter is_digit fp))
           else None)"

definition scale10 :: "rat \<Rightarrow> int \<Rightarrow> rat" where
  "scale10 q e = (if 0 \<le> e then q * 10 ^ nat e else q / 10 ^ nat (- e))"

definition is_exp_char :: "char \<Rightarrow> bool" where
  "is_exp_char c = (c = CHR ''e'' \<or> c = CHR ''E'')"

text \<open>\<open>absfloatvalue ::= floatnumber | infinity | nan\<close>, letters in either case.\<close>

definition float_abs :: "string \<Rightarrow> pyfloat option" where
  "float_abs s =
     (let low = map lower s in
      if low = ''inf'' \<or> low = ''infinity'' then Some (Infinity True)
      else if low = ''nan'' then Some NaN
      else
        let m = takeWhile (\<lambda>c. \<not> is_exp_char c) s;
            r = dropWhile (\<lambda>c. \<not> is_exp_char c) s
        in case float_number m of
             None \<Rightarrow> None
           | Some q \<Rightarrow>
               if r = [] then Some (Finite q)
               else (case float_exponent (tl r) of
                       None \<Rightarrow> None
                     | Some e \<Rightarrow> Some (Finite (scale10 q e))))"

definition negate :: "pyfloat \<Rightarrow> pyfloat" where
  "negate v = (case v of Finite q \<Rightarrow> Finite (- q) | Infinity b \<Rightarrow> Infinity (\<not> b) | NaN \<Rightarrow> NaN)"

text \<open>
  Python's \<open>float(s)\<close> for a string: surrounding whitespace is stripped, then
  \<open>[sign] absfloatvalue\<close> is read; anything else raises ValueError.
\<close>

definition float :: "string \<Rightarrow> pyerror + pyfloat" where
  "float s =
     (let t = strip s;
          r = (case t of
                 [] \<Rightarrow> None
               | c # u \<Rightarrow>
                   if c = CHR ''+'' then float_abs u
                   else if c = CHR ''-'' then map_option negate (float_abs u)
                   else float_abs t)
      in case r of None \<Rightarrow> Inl ValueError | Some v \<Rightarrow> Inr v)"

text \<open>
  Python's \<open>int(s)\<close> for a string, base 10: whitespace stripped, \<open>[sign] digitpart\<close>.
\<close>

definition int_of_str :: "string \<Rightarrow> pyerror + int" where
  "int_of_str s =
     (case strip s of
        [] \<Rightarrow> Inl ValueError
      | c # u \<Rightarrow>
          if c = CHR ''+'' then (if digitpart u then Inr (int (digits_val u)) else Inl ValueError)
          else if c = CHR ''-'' then (if digitpart u then Inr (- int (digits_val u)) else Inl ValueError)
          else if digitpart (c # u) then Inr (int (digits_val (c # u))) else Inl ValueError)"

text \<open>
  The index at which the slices \<open>a[:n]\<close> and \<open>a[n:]\<close> cut a sequence of length \<open>len\<close>:
  a negative \<open>n\<close> counts from the end, and both are clipped to the sequence.
\<close>

definition slice_index :: "int \<Rightarrow> nat \<Rightarrow> nat" where
  "slice_index n len = (if 0 \<le> n then min (nat n) len else len - nat (- n))"

section \<open>Coordinate decoder\<close>

text \<open>
  \<^verbatim>\<open>a = angle.split(".")[0]; return float(a[:number_len] + "." + a[number_len:])\<close>
\<close>

definition get_coordinate :: "string \<Rightarrow> int \<Rightarrow> pyerror + pyfloat" where
  "get_coordinate angle number_len =
     (let a = takeWhile (\<lambda>c. c \<noteq> CHR ''.'') angle;
          k = slice_index number_len (length a)
      in float (take k a @ ''.'' @ drop k a))"


section \<open>XML elements\<close>

text \<open>
  An element of the parsed document, with the operations of ElementTree that main.py
  uses: \<open>e.get(k)\<close>, \<open>e.find(tag)\<close>, \<open>e.findall(tag)\<close>, iteration over the children,
  \<open>e.text\<close> and \<open>e.attrib\<close>.
\<close>

datatype element =
  Element (elem_tag: string) (elem_attrib: "(string \<times> string) list")
          (elem_text: "string option") (elem_children: "element list")

definition elem_get :: "element \<Rightarrow> string \<Rightarrow> string option" where
  "elem_get e k = map_of (elem_attrib e) k"

definition elem_find :: "string \<Rightarrow> element \<Rightarrow> element option" where
  "elem_find t e = List.find (\<lambda>c. elem_tag c = t) (elem_children e)"

definition elem_findall :: "string \<Rightarrow> element \<Rightarrow> element list" where
  "elem_findall t e = filter (\<lambda>c. elem_tag c = t) (elem_children e)"

section \<open>Library functions taken as parameters\<close>

text \<open>
  The calls into \<open>datetime\<close> and \<open>requests\<close> are parameters of the model.
  \<^item> \<open>strptime_maj s\<close> is \<open>datetime.strptime(s, "%Y-%m-%dT%H:%M:%S").strftime("%Y-%m-%d")\<close>,
    and \<open>None\<close> when \<open>strptime\<close> raises ValueError;
  \<^item> \<open>strptime_hm s\<close> is \<open>datetime.strptime(s, "%H.%M").time()\<close> as hour and minute, and
    \<open>None\<close> when it raises ValueError;
  \<^item> \<open>http_get id\<close> is the outcome of \<open>requests.get\<close> on the URL of \<open>id\<close>:
    an exception, or a response with its status and text.
\<close>

datatype reply = Raised | Response (status_code: int) (response_text: string)

record pylib =
  strptime_maj :: "string \<Rightarrow> string option"
  strptime_hm :: "string \<Rightarrow> (nat \<times> nat) option"
  http_get :: "int \<Rightarrow> reply"

section \<open>Name lookup\<close>

text \<open>The first occurrence of \<open>pat\<close> in \<open>s\<close>: what stands before it and what follows it.\<close>

fun find_sub :: "string \<Rightarrow> string \<Rightarrow> (string \<times> string) option" where
  "find_sub pat [] = (if pat = [] then Some ([], []) else None)"
| "find_sub pat (c # s) =
     (if take (length pat) (c # s) = pat then Some ([], drop (length pat) (c # s))
      else map_option (\<lambda>(b, a). (c # b, a)) (find_sub pat s))"

text \<open>
  \<^verbatim>\<open>re.compile(r'<strong>(.*?)</strong>', re.DOTALL).search(html)\<close> and its group 1: the
  leftmost \<open><strong>\<close> that a \<open></strong>\<close> follows, and the text up to the first
  \<open></strong>\<close> after it.
\<close>

definition search_strong :: "string \<Rightarrow> string option" where
  "search_strong html =
     (case find_sub ''<strong>'' html of
        None \<Rightarrow> None
      | Some (b, rest) \<Rightarrow>
          (case find_sub ''</strong>'' rest of
             None \<Rightarrow> None
           | Some (g, a) \<Rightarrow> Some g))"

text \<open>
  \<open>get_name_station\<close>: the name when the status is 200 and the pattern matches; \<open>None\<close>
  when the function falls off its end or the bare \<open>except\<close> catches an exception.
\<close>

definition get_name_station :: "pylib \<Rightarrow> int \<Rightarrow> string option" where
  "get_name_station lib i =
     (case http_get lib i of
        Raised \<Rightarrow> None
      | Response st html \<Rightarrow> if st = 200 then search_strong html else None)"

definition get_station_name :: "pylib \<Rightarrow> int \<Rightarrow> int \<times> string option" where
  "get_station_name lib station_id = (station_id, get_name_station lib station_id)"

text \<open>
  \<open>list(executor.map(fn, xs))\<close> on a thread pool. One future per element, in the order
  of \<open>xs\<close>; the tasks complete in the order \<open>completion\<close> (indices into \<open>xs\<close>), each
  storing its result in its own future; the results are then read in the order of the
  futures. The call returns once every future holds a result: \<open>None\<close> stands for a call
  that never returns.
\<close>

definition executor_map :: "('a \<Rightarrow> 'b) \<Rightarrow> 'a list \<Rightarrow> nat list \<Rightarrow> 'b list option" where
  "executor_map fn xs completion =
     (let futures = fold (\<lambda>i fs. if i < length xs then fs[i := Some (fn (xs ! i))] else fs)
                         completion (replicate (length xs) None)
      in if list_all (\<lambda>f. f \<noteq> None) futures then Some (map the futures) else None)"

section \<open>Stations\<close>

record hours_range =
  hour_start :: "nat \<times> nat"
  hour_end :: "nat \<times> nat"

datatype opening_hours = OpeningHours "(int \<times> hours_range option) list"

record gas_station =
  gs_id :: int
  gs_name :: "string option"
  gs_address :: "string option"
  gs_latitude :: pyfloat
  gs_longitude :: pyfloat
  gs_postal_code :: "string option"
  gs_city :: "string option"
  gs_is_always_open :: bool
  gs_opening_hours :: "opening_hours option"
  gs_gas_price_history :: "(string option \<times> (string \<times> pyfloat) list) list"

definition maxx :: nat where
  "maxx = 9999999"

text \<open>
  Lines 62 to 72, the \<open>try\<close> block: address, latitude, longitude, postal code and city.
  Any exception in it is caught by the bare \<open>except\<close> and the record is skipped
  (\<open>None\<close>): a missing \<open>adresse\<close> or \<open>ville\<close> child, a missing coordinate attribute, a
  coordinate that \<open>get_coordinate\<close> rejects.
\<close>

definition mandatory_fields ::
  "element \<Rightarrow> (string option \<times> pyfloat \<times> pyfloat \<times> string option \<times> string option) option" where
  "mandatory_fields pdv =
     (case elem_find ''adresse'' pdv of
        None \<Rightarrow> None
      | Some ad \<Rightarrow>
     (case elem_get pdv ''latitude'' of
        None \<Rightarrow> None
      | Some la \<Rightarrow>
     (case get_coordinate la 2 of
        Inl e \<Rightarrow> None
      | Inr latitude \<Rightarrow>
     (case elem_get pdv ''longitude'' of
        None \<Rightarrow> None
      | Some lo \<Rightarrow>
     (case get_coordinate lo 1 of
        Inl e \<Rightarrow> None
      | Inr longitude \<Rightarrow>
     (case elem_find ''ville'' pdv of
        None \<Rightarrow> None
      | Some vi \<Rightarrow>
          Some (elem_text ad, latitude, longitude, elem_get pdv ''cp'', elem_text vi)))))))"

text \<open>
  Lines 79 to 91, one day of the opening hours. \<open>int(None)\<close> and \<open>strptime(None, ...)\<close>
  raise TypeError, \<open>None.get\<close> raises AttributeError.
\<close>

definition parse_day :: "pylib \<Rightarrow> element \<Rightarrow> pyerror + (int \<times> hours_range option)" where
  "parse_day lib day =
     (case (case elem_get day ''id'' of None \<Rightarrow> Inl TypeError | Some s \<Rightarrow> int_of_str s) of
        Inl e \<Rightarrow> Inl e
      | Inr day_id \<Rightarrow>
          if elem_get day ''ferme'' = Some ''1'' \<or> elem_find ''ouverture'' day = None
          then Inr (day_id, None)
          else
            (case elem_find ''horaire'' day of
               None \<Rightarrow> Inl AttributeError
             | Some h \<Rightarrow>
            (case elem_get h ''ouverture'' of
               None \<Rightarrow> Inl TypeError
             | Some opening_time \<Rightarrow>
            (case strptime_hm lib opening_time of
               None \<Rightarrow> Inl ValueError
             | Some start_time \<Rightarrow>
            (case elem_get h ''fermeture'' of
               None \<Rightarrow> Inl TypeError
             | Some closing_time \<Rightarrow>
            (case strptime_hm lib closing_time of
               None \<Rightarrow> Inl ValueError
             | Some end_time \<Rightarrow>
                 Inr (day_id, Some \<lparr>hour_start = start_time, hour_end = end_time\<rparr>)))))))"

text \<open>The loop of line 78 over the children of \<open>horaires\<close>, filling the dict \<open>days\<close>.\<close>

fun parse_days ::
  "pylib \<Rightarrow> element list \<Rightarrow> (int \<times> hours_range option) list
     \<Rightarrow> pyerror + (int \<times> hours_range option) list" where
  "parse_days lib [] days = Inr days"
| "parse_days lib (day # rest) days =
     (case parse_day lib day of
        Inl e \<Rightarrow> Inl e
      | Inr (day_id, hours_range) \<Rightarrow> parse_days lib rest (AList.update day_id hours_range days))"

text \<open>Lines 100 to 102: fuel type, price and date of one \<open>prix\<close> element.\<close>

definition parse_prix :: "pylib \<Rightarrow> element \<Rightarrow> pyerror + (string option \<times> string \<times> pyfloat)" where
  "parse_prix lib p =
     (case (case elem_get p ''valeur'' of None \<Rightarrow> Inl TypeError | Some v \<Rightarrow> float v) of
        Inl e \<Rightarrow> Inl e
      | Inr price \<Rightarrow>
          (case elem_get p ''maj'' of
             None \<Rightarrow> Inl TypeError
           | Some m \<Rightarrow>
               (case strptime_maj lib m of
                  None \<Rightarrow> Inl ValueError
                | Some update_date \<Rightarrow> Inr (elem_get p ''nom'', update_date, price))))"

text \<open>
  Lines 104 to 107: \<open>gas_price_history[fuel_type][update_date] = price\<close>, with an empty
  dict created first for a new fuel type.
\<close>

definition record_price ::
  "string option \<Rightarrow> string \<Rightarrow> pyfloat \<Rightarrow> (string option \<times> (string \<times> pyfloat) list) list
     \<Rightarrow> (string option \<times> (string \<times> pyfloat) list) list" where
  "record_price fuel_type update_date price h =
     (case map_of h fuel_type of
        None \<Rightarrow> AList.update fuel_type [(update_date, price)] h
      | Some dates \<Rightarrow> AList.update fuel_type (AList.update update_date price dates) h)"

text \<open>The loop of line 98 over the \<open>prix\<close> children; one without attributes is passed over.\<close>

fun parse_prices ::
  "pylib \<Rightarrow> element list \<Rightarrow> (string option \<times> (string \<times> pyfloat) list) list
     \<Rightarrow> pyerror + (string option \<times> (string \<times> pyfloat) list) list" where
  "parse_prices lib [] h = Inr h"
| "parse_prices lib (p # ps) h =
     (if elem_attrib p = [] then parse_prices lib ps h
      else
        (case parse_prix lib p of
           Inl e \<Rightarrow> Inl e
         | Inr (fuel_type, update_date, price) \<Rightarrow>
             parse_prices lib ps (record_price fuel_type update_date price h)))"

text \<open>
  Lines 74 to 93: the opening hours of a record, and the local variable \<open>always_open\<close>
  after them. The variable is assigned only inside the \<open>if\<close>; \<open>None\<close> is the variable
  not yet bound.
\<close>

definition parse_horaires ::
  "pylib \<Rightarrow> bool option \<Rightarrow> element \<Rightarrow> pyerror + (opening_hours option \<times> bool option)" where
  "parse_horaires lib always_open pdv =
     (case elem_find ''horaires'' pdv of
        None \<Rightarrow> Inr (None, always_open)
      | Some horaires_element \<Rightarrow>
          (case parse_days lib (elem_children horaires_element) [] of
             Inl e \<Rightarrow> Inl e
           | Inr days \<Rightarrow>
               Inr (Some (OpeningHours days),
                    Some (map_of (elem_attrib horaires_element) ''automate-24-24'' \<noteq> None))))"

text \<open>
  The body of the loop of line 61 for one record and its \<open>(station_id, name)\<close>. The result
  is the station, or \<open>None\<close> when the record is skipped, with the variable \<open>always_open\<close>
  as the iteration leaves it. Line 95 reads \<open>always_open\<close> whether or not the record has
  opening hours; reading it unbound raises UnboundLocalError.
\<close>

definition parse_station ::
  "pylib \<Rightarrow> bool option \<Rightarrow> element \<Rightarrow> int \<times> string option
     \<Rightarrow> pyerror + (gas_station option \<times> bool option)" where
  "parse_station lib always_open pdv sn =
     (case mandatory_fields pdv of
        None \<Rightarrow> Inr (None, always_open)
      | Some (address, latitude, longitude, postal_code, city) \<Rightarrow>
     (case parse_horaires lib always_open pdv of
        Inl e \<Rightarrow> Inl e
      | Inr (opening_hours, always_open') \<Rightarrow>
     (case always_open' of
        None \<Rightarrow> Inl UnboundLocalError
      | Some is_always_open \<Rightarrow>
     (case parse_prices lib (elem_findall ''prix'' pdv) [] of
        Inl e \<Rightarrow> Inl e
      | Inr gas_price_history \<Rightarrow>
          Inr (Some \<lparr>gs_id = fst sn, gs_name = snd sn, gs_address = address,
                     gs_latitude = latitude, gs_longitude = longitude,
                     gs_postal_code = postal_code, gs_city = city,
                     gs_is_always_open = is_always_open, gs_opening_hours = opening_hours,
                     gs_gas_price_history = gas_price_history\<rparr>,
               always_open')))))"

text \<open>
  The loop of line 61 over \<open>zip(root, station_names)\<close>: the stations so far, the variable
  \<open>always_open\<close> and \<open>count\<close>. An exception outside the \<open>try\<close> block ends the run.
\<close>

fun stations_loop ::
  "pylib \<Rightarrow> (element \<times> int \<times> string option) list \<Rightarrow> gas_station list \<Rightarrow> bool option \<Rightarrow> nat
     \<Rightarrow> pyerror + gas_station list" where
  "stations_loop lib [] gas_stations always_open count = Inr gas_stations"
| "stations_loop lib ((pdv, sn) # rest) gas_stations always_open count =
     (case parse_station lib always_open pdv sn of
        Inl e \<Rightarrow> Inl e
      | Inr (None, always_open') \<Rightarrow> stations_loop lib rest gas_stations always_open' count
      | Inr (Some gas_station, always_open') \<Rightarrow>
          if Suc count > maxx then Inr (gas_stations @ [gas_station])
          else stations_loop lib rest (gas_stations @ [gas_station]) always_open' (Suc count))"

text \<open>Line 55: \<open>[int(pdv.get("id")) for pdv in root]\<close>.\<close>

fun station_ids :: "element list \<Rightarrow> pyerror + int list" where
  "station_ids [] = Inr []"
| "station_ids (pdv # rest) =
     (case (case elem_get pdv ''id'' of None \<Rightarrow> Inl TypeError | Some s \<Rightarrow> int_of_str s) of
        Inl e \<Rightarrow> Inl e
      | Inr i \<Rightarrow> (case station_ids rest of Inl e \<Rightarrow> Inl e | Inr is \<Rightarrow> Inr (i # is)))"

text \<open>
  \<open>parse_data\<close> on the children of the document's root, with the order in which the
  lookups complete. \<open>None\<close>: the pool never returns.
\<close>

definition parse_data ::
  "pylib \<Rightarrow> nat list \<Rightarrow> element list \<Rightarrow> (pyerror + gas_station list) option" where
  "parse_data lib completion root_children =
     (case station_ids root_children of
        Inl e \<Rightarrow> Some (Inl e)
      | Inr ids \<Rightarrow>
          (case executor_map (get_station_name lib) (take maxx ids) completion of
             None \<Rightarrow> None
           | Some station_names \<Rightarrow>
               Some (stations_loop lib (zip root_children station_names) [] None 0)))"

section \<open>Daily price series\<close>

text \<open>An entry of an output array: a stored price, or the integer that fills a gap.\<close>

datatype json_number = JFloat pyfloat | JInt int

text \<open>
  Lines 154 to 163, the loop over the dates for one fuel type; \<open>out\<close> is the list
  \<open>station_json["carburants"][fuel_type]\<close> built so far.
\<close>

fun fill_prices :: "(string \<times> pyfloat) list \<Rightarrow> string list \<Rightarrow> json_number list \<Rightarrow> json_number list" where
  "fill_prices price_history [] out = out"
| "fill_prices price_history (date_key # rest) out =
     fill_prices price_history rest
       (out @ [case map_of price_history date_key of
                 Some price \<Rightarrow> JFloat price
               | None \<Rightarrow> if out = [] then JInt 0 else last out])"

record station_json =
  sj_id :: int
  sj_name :: "string option"
  sj_address :: "string option"
  sj_latitude :: pyfloat
  sj_longitude :: pyfloat
  sj_postal_code :: "string option"
  sj_city :: "string option"
  sj_is_always_open :: bool
  sj_carburants :: "(string option \<times> json_number list) list"

text \<open>Lines 139 to 163: the entry of one station, over the dates \<open>date_strings\<close>.\<close>

definition station_entry :: "string list \<Rightarrow> gas_station \<Rightarrow> station_json" where
  "station_entry date_strings gas_station =
     \<lparr>sj_id = gs_id gas_station, sj_name = gs_name gas_station,
      sj_address = gs_address gas_station, sj_latitude = gs_latitude gas_station,
      sj_longitude = gs_longitude gas_station, sj_postal_code = gs_postal_code gas_station,
      sj_city = gs_city gas_station, sj_is_always_open = gs_is_always_open gas_station,
      sj_carburants =
        fold (\<lambda>(fuel_type, price_history) carburants.
                AList.update fuel_type (fill_prices price_history date_strings []) carburants)
             (gs_gas_price_history gas_station) []\<rparr>"

text \<open>
  Line 134: the days \<open>now - 365\<close> to \<open>now - 1\<close>, for \<open>day_number\<close> in
  \<open>range(365, 0, -1)\<close>. \<open>now\<close> is the ordinal of the current day, and
  \<open>strftime_day n\<close> is \<open>strftime("%Y-%m-%d")\<close> of the day with ordinal \<open>n\<close>, a parameter.
\<close>

definition date_strings :: "(int \<Rightarrow> string) \<Rightarrow> int \<Rightarrow> string list" where
  "date_strings strftime_day now =
     map (\<lambda>day_number. strftime_day (now - day_number)) (rev [1..365])"

text \<open>\<open>create_json_heatmap\<close>: the list \<open>result_json["stations"]\<close> that is written out.\<close>

definition create_json_heatmap ::
  "(int \<Rightarrow> string) \<Rightarrow> int \<Rightarrow> gas_station list \<Rightarrow> station_json list" where
  "create_json_heatmap strftime_day now gas_stations =
     map (station_entry (date_strings strftime_day now)) gas_stations"

section \<open>The fill policy as the specification words it\<close>

text \<open>
  The series over a window of dates with an explicit last known value: a date that is a
  key of the history emits its price, which becomes the last known value; any other date
  emits the last known value when there is one, and 0 otherwise.
\<close>

fun forward_fill ::
  "(string \<Rightarrow> pyfloat option) \<Rightarrow> pyfloat option \<Rightarrow> string list \<Rightarrow> json_number list" where
  "forward_fill history last_known [] = []"
| "forward_fill history last_known (d # ds) =
     (case history d of
        Some price \<Rightarrow> JFloat price # forward_fill history (Some price) ds
      | None \<Rightarrow>
          (case last_known of
             Some price \<Rightarrow> JFloat price # forward_fill history last_known ds
           | None \<Rightarrow> JInt 0 # forward_fill history None ds))"

text \<open>The price of the latest date among \<open>ds\<close> that is a key of the history.\<close>

definition last_known_before :: "(string \<Rightarrow> pyfloat option) \<Rightarrow> string list \<Rightarrow> pyfloat option" where
  "last_known_before history ds =
     (case rev (filter (\<lambda>d. history d \<noteq> None) ds) of [] \<Rightarrow> None | d # _ \<Rightarrow> history d)"

definition emitted :: "pyfloat option \<Rightarrow> json_number" where
  "emitted last_known = (case last_known of Some price \<Rightarrow> JFloat price | None \<Rightarrow> JInt 0)"

section \<open>Name lookup as the specification words it\<close>

text \<open>The marker is present in a text: an opening tag with a closing tag after it.\<close>

definition has_marker :: "string \<Rightarrow> bool" where
  "has_marker html = (\<exists>pre mid post. html = pre @ ''<strong>'' @ mid @ ''</strong>'' @ post)"

text \<open>A lookup succeeds: no exception, status 200 and the marker in the text.\<close>

definition lookup_succeeds :: "pylib \<Rightarrow> int \<Rightarrow> bool" where
  "lookup_succeeds lib i =
     (case http_get lib i of Raised \<Rightarrow> False | Response st html \<Rightarrow> st = 200 \<and> has_marker html)"

section \<open>Price history and opening hours as the specification words them\<close>

text \<open>
  The ordered price updates of a record: fuel type, date and price of every \<open>prix\<close>
  child that has attributes, each as \<open>parse_prix\<close> reads it.
\<close>

definition price_updates :: "pylib \<Rightarrow> element \<Rightarrow> (pyerror + string option \<times> string \<times> pyfloat) list" where
  "price_updates lib pdv =
     map (parse_prix lib) (filter (\<lambda>p. elem_attrib p \<noteq> []) (elem_findall ''prix'' pdv))"

text \<open>The price of the last update of a list for a fuel type and a date.\<close>

definition last_write ::
  "(string option \<times> string \<times> pyfloat) list \<Rightarrow> string option \<Rightarrow> string \<Rightarrow> pyfloat option" where
  "last_write updates fuel_type date =
     (case rev (filter (\<lambda>(f, d, p). f = fuel_type \<and> d = date) updates) of
        [] \<Rightarrow> None
      | (f, d, p) # _ \<Rightarrow> Some p)"

text \<open>\<open>gas_price_history[fuel_type][date]\<close>, when both keys are present.\<close>

definition history_lookup ::
  "(string option \<times> (string \<times> pyfloat) list) list \<Rightarrow> string option \<Rightarrow> string \<Rightarrow> pyfloat option" where
  "history_lookup h fuel_type date =
     (case map_of h fuel_type of None \<Rightarrow> None | Some dates \<Rightarrow> map_of dates date)"

text \<open>A day entry that is not marked closed and has an \<open>ouverture\<close> sub-entry.\<close>

definition needs_times :: "element \<Rightarrow> bool" where
  "needs_times day =
     (elem_get day ''ferme'' \<noteq> Some ''1'' \<and> elem_find ''ouverture'' day \<noteq> None)"

text \<open>A day entry with a \<open>horaire\<close> sub-entry whose two times are present and parse.\<close>

definition has_times :: "pylib \<Rightarrow> element \<Rightarrow> bool" where
  "has_times lib day =
     (case elem_find ''horaire'' day of
        None \<Rightarrow> False
      | Some h \<Rightarrow>
          (case elem_get h ''ouverture'' of None \<Rightarrow> False | Some t \<Rightarrow> strptime_hm lib t \<noteq> None)
          \<and> (case elem_get h ''fermeture'' of None \<Rightarrow> False | Some t \<Rightarrow> strptime_hm lib t \<noteq> None))"

section \<open>Sample inputs\<close>

text \<open>A station with one fuel type and a single price, for the examples.\<close>

definition sample_station :: gas_station where
  "sample_station =
     \<lparr>gs_id = 1000001, gs_name = Some ''Station A'', gs_address = Some ''1 rue de la Gare'',
      gs_latitude = Finite (46201 / 1000), gs_longitude = Finite (5198 / 1000),
      gs_postal_code = Some ''01000'', gs_city = Some ''Bourg'',
      gs_is_always_open = False, gs_opening_hours = None,
      gs_gas_price_history = [(Some ''Gazole'', [(''2023-03-02'', Finite 2)])]\<rparr>"

text \<open>
  The library on the strings of the examples: two timestamps of the same day and one of
  the next, two times of day, and four lookups of which one succeeds. The strings that
  the examples hand to \<open>strptime\<close> beyond these are ones that it rejects (a date that
  does not exist).
\<close>

definition sample_lib :: pylib where
  "sample_lib =
     \<lparr>strptime_maj = map_of [(''2023-03-01T08:15:00'', ''2023-03-01''),
                             (''2023-03-01T17:40:00'', ''2023-03-01''),
                             (''2023-03-02T09:00:00'', ''2023-03-02'')],
      strptime_hm = map_of [(''08.00'', (8, 0)), (''20.30'', (20, 30))],
      http_get = (\<lambda>i. if i = 1000001 then Response 200 ''<p><strong>Station A</strong></p>''
                       else if i = 1000002 then Response 404 ''<strong>gone</strong>''
                       else if i = 1000003 then Response 200 ''<p>no name</p>''
                       else Raised)\<rparr>"

text \<open>
  Records of the document for the examples: a \<open>pdv\<close> with the mandatory fields and the
  given further children; opening hours with the marker \<open>automate-24-24\<close>, an open day
  and a closed day; a day with an \<open>ouverture\<close> child and no \<open>horaire\<close> child; a price.
\<close>

definition sample_pdv :: "string \<Rightarrow> element list \<Rightarrow> element" where
  "sample_pdv i cs =
     Element ''pdv''
       [(''id'', i), (''latitude'', ''4620100''), (''longitude'', ''519800''), (''cp'', ''01000'')]
       None
       ([Element ''adresse'' [] (Some ''1 rue de la Gare'') [],
         Element ''ville'' [] (Some ''Bourg'') []] @ cs)"

definition sample_horaires :: element where
  "sample_horaires =
     Element ''horaires'' [(''automate-24-24'', ''1'')] None
       [Element ''jour'' [(''id'', ''1''), (''nom'', ''Lundi''), (''ferme'', [])] None
          [Element ''ouverture'' [] None [],
           Element ''horaire'' [(''ouverture'', ''08.00''), (''fermeture'', ''20.30'')] None []],
        Element ''jour'' [(''id'', ''7''), (''nom'', ''Dimanche''), (''ferme'', ''1'')] None []]"

definition sample_day_without_horaire :: element where
  "sample_day_without_horaire =
     Element ''jour'' [(''id'', ''2''), (''nom'', ''Mardi''), (''ferme'', [])] None
       [Element ''ouverture'' [] None []]"

definition sample_prix :: "string \<Rightarrow> string \<Rightarrow> string \<Rightarrow> element" where
  "sample_prix nom maj valeur =
     Element ''prix'' [(''nom'', nom), (''maj'', maj), (''valeur'', valeur)] None []"

text \<open>
  Five records: one with opening hours and three prices, two of them for the same fuel
  type and day; one without opening hours; one with a price that is no number; one with
  an impossible date; one whose opening hours hold the day without \<open>horaire\<close>.
\<close>

definition sample_record :: element where
  "sample_record =
     sample_pdv ''1000001''
       [sample_horaires,
        sample_prix ''Gazole'' ''2023-03-01T08:15:00'' ''1.80'',
        sample_prix ''Gazole'' ''2023-03-01T17:40:00'' ''1.85'',
        sample_prix ''SP95'' ''2023-03-02T09:00:00'' ''1.9'']"

definition sample_record_plain :: element where
  "sample_record_plain =
     sample_pdv ''1000002'' [sample_prix ''Gazole'' ''2023-03-02T09:00:00'' ''1.9'']"

definition sample_record_bad_price :: element where
  "sample_record_bad_price =
     sample_pdv ''1000003'' [sample_horaires, sample_prix ''Gazole'' ''2023-03-01T08:15:00'' ''n/a'']"

definition sample_record_bad_date :: element where
  "sample_record_bad_date =
     sample_pdv ''1000003'' [sample_horaires, sample_prix ''Gazole'' ''2023-02-30T08:15:00'' ''1.80'']"

definition sample_record_bad_hours :: element where
  "sample_record_bad_hours =
     sample_pdv ''1000004'' [Element ''horaires'' [] None [sample_day_without_horaire]]"

text \<open>The station that \<open>sample_record\<close> is assembled into, with the name found for it.\<close>

definition sample_assembled :: gas_station where
  "sample_assembled =
     \<lparr>gs_id = 1000001, gs_name = Some ''Station A'', gs_address = Some ''1 rue de la Gare'',
      gs_latitude = Finite (46201 / 1000), gs_longitude = Finite (2599 / 500),
      gs_postal_code = Some ''01000'', gs_city = Some ''Bourg'',
      gs_is_always_open = True,
      gs_opening_hours =
        Some (OpeningHours [(1, Some \<lparr>hour_start = (8, 0), hour_end = (20, 30)\<rparr>), (7, None)]),
      gs_gas_price_history =
        [(Some ''Gazole'', [(''2023-03-01'', Finite (37 / 20))]),
         (Some ''SP95'', [(''2023-03-02'', Finite (19 / 10))])]\<rparr>"

section \<open>Theorems\<close>

lemmas float_eval =
  float_def strip_def is_space_def float_abs_def float_number_def float_exponent_def
  scale10_def negate_def lower_def is_exp_char_def is_digit_def digits_val_def digit_val_def

lemmas get_coordinate_eval = get_coordinate_def slice_index_def float_eval

subsection \<open>Reading digit strings\<close>












subsection \<open>Coordinate decoder\<close>

text \<open>
  C2. The three worked examples of the decoder: \<open>"4620100"\<close> with 2 integer digits is the
  float \<open>46.201\<close>, \<open>"519800"\<close> with 1 is \<open>5.198\<close>, and \<open>"4584829.0858556"\<close> with 1 is
  \<open>4.584829\<close>: the part before the first point is cut after the integer digits and read
  again with one point. Each right-hand side is the float that the literal denotes.
\<close>

theorem get_coordinate_worked_examples:
  "get_coordinate ''4620100'' 2 = float ''46.201''
   \<and> float ''46.201'' = Inr (Finite (46201 / 1000))
   \<and> get_coordinate ''519800'' 1 = float ''5.198''
   \<and> float ''5.198'' = Inr (Finite (5198 / 1000))
   \<and> get_coordinate ''4584829.0858556'' 1 = float ''4.584829''
   \<and> float ''4.584829'' = Inr (Finite (4584829 / 1000000))"
  by (simp add: get_coordinate_eval)




subsection \<open>Daily price series\<close>

lemma fill_prices_forward_fill_gen:
  "(if out = [] then lk = None else last out = emitted lk)
   \<Longrightarrow> fill_prices h ds out = out @ forward_fill (map_of h) lk ds"
proof (induction ds arbitrary: out lk)
  case Nil
  show ?case by simp
next
  case (Cons d ds)
  have prev: "(if out = [] then JInt 0 else last out) = emitted lk"
    using Cons.prems by (auto simp: emitted_def)
  show ?case
  proof (cases "map_of h d")
    case (Some p)
    have "fill_prices h ds (out @ [JFloat p]) = (out @ [JFloat p]) @ forward_fill (map_of h) (Some p) ds"
      by (rule Cons.IH) (simp add: emitted_def)
    then show ?thesis using Some by simp
  next
    case None
    have "fill_prices h ds (out @ [emitted lk]) = (out @ [emitted lk]) @ forward_fill (map_of h) lk ds"
      by (rule Cons.IH) simp
    then show ?thesis
      using None prev by (simp add: emitted_def split: option.splits)
  qed
qed

lemma fill_prices_forward_fill: "fill_prices h ds [] = forward_fill (map_of h) None ds"
  using fill_prices_forward_fill_gen [of "[]" None h ds] by simp

lemma length_forward_fill: "length (forward_fill m lk ds) = length ds"
  by (induction ds arbitrary: lk) (auto split: option.splits)

lemma last_known_before_Cons:
  "last_known_before m (d # ds) =
     (case last_known_before m ds of Some p \<Rightarrow> Some p | None \<Rightarrow> m d)"
proof (cases "rev (filter (\<lambda>d. m d \<noteq> None) ds)")
  case Nil
  then show ?thesis
    by (simp add: last_known_before_def split: option.splits)
next
  case (Cons y ys)
  then have "y \<in> set (filter (\<lambda>d. m d \<noteq> None) ds)"
    by (metis list.set_intros(1) set_rev)
  then obtain p where "m y = Some p" by auto
  with Cons show ?thesis
    by (simp add: last_known_before_def)
qed

lemma forward_fill_nth:
  "i < length ds \<Longrightarrow>
   forward_fill m lk ds ! i =
     (case m (ds ! i) of
        Some p \<Rightarrow> JFloat p
      | None \<Rightarrow> (case last_known_before m (take i ds) of
                   Some p \<Rightarrow> JFloat p
                 | None \<Rightarrow> emitted lk))"
proof (induction ds arbitrary: i lk)
  case Nil
  then show ?case by simp
next
  case (Cons d ds)
  show ?case
  proof (cases i)
    case 0
    then show ?thesis
      by (simp add: last_known_before_def emitted_def split: option.splits)
  next
    case (Suc j)
    with Cons.prems have j: "j < length ds" by simp
    show ?thesis
      using Suc Cons.IH [OF j]
      by (auto simp: last_known_before_Cons emitted_def split: option.splits)
  qed
qed

lemma update_fresh: "k \<notin> fst ` set al \<Longrightarrow> AList.update k v al = al @ [(k, v)]"
  by (induction al) auto

lemma fold_update_distinct:
  "distinct (map fst hist) \<Longrightarrow> fst ` set acc \<inter> fst ` set hist = {} \<Longrightarrow>
   fold (\<lambda>(f, h) c. AList.update f (g h) c) hist acc = acc @ map (\<lambda>(f, h). (f, g h)) hist"
proof (induction hist arbitrary: acc)
  case Nil
  show ?case by simp
next
  case (Cons x hist)
  obtain f h where x: "x = (f, h)" by (cases x)
  have fresh: "f \<notin> fst ` set acc" using Cons.prems(2) x by auto
  have d: "distinct (map fst hist)" using Cons.prems(1) by simp
  have "f \<notin> fst ` set hist" using Cons.prems(1) x by (auto simp: image_iff)
  then have disj: "fst ` set (acc @ [(f, g h)]) \<inter> fst ` set hist = {}"
    using Cons.prems(2) by auto
  show ?case
    using Cons.IH [OF d disj] by (simp add: x update_fresh [OF fresh])
qed

lemma carburants_distinct:
  assumes "distinct (map fst (gs_gas_price_history gs))"
  shows "sj_carburants (station_entry ds gs) =
           map (\<lambda>(f, h). (f, fill_prices h ds [])) (gs_gas_price_history gs)"
  using fold_update_distinct [OF assms, of "[]" "\<lambda>h. fill_prices h ds []"]
  by (simp add: station_entry_def)

lemma carburants_lookup:
  assumes "distinct (map fst (gs_gas_price_history gs))"
  shows "map_of (sj_carburants (station_entry ds gs)) ft =
           map_option (\<lambda>h. fill_prices h ds []) (map_of (gs_gas_price_history gs) ft)"
  by (simp add: carburants_distinct [OF assms] map_of_map)

lemma last_known_before_snoc:
  "last_known_before m (ds @ [d]) = (case m d of Some p \<Rightarrow> Some p | None \<Rightarrow> last_known_before m ds)"
  by (auto simp: last_known_before_def split: option.splits)

lemma forward_fill_step:
  assumes "i < length ds"
  shows "forward_fill m None ds ! i =
     (case m (ds ! i) of
        Some p \<Rightarrow> JFloat p
      | None \<Rightarrow> if i = 0 then JInt 0 else forward_fill m None ds ! (i - 1))"
proof (cases i)
  case 0
  with assms show ?thesis
    by (simp add: forward_fill_nth last_known_before_def emitted_def split: option.splits)
next
  case (Suc j)
  with assms have j: "j < length ds" by simp
  have t: "take (Suc j) ds = take j ds @ [ds ! j]"
    using j by (rule take_Suc_conv_app_nth)
  show ?thesis
    using assms j
    by (simp add: Suc forward_fill_nth t last_known_before_snoc split: option.splits)
qed

lemma length_date_strings: "length (date_strings sf now) = 365"
  by (simp add: date_strings_def)

lemma date_strings_nth:
  assumes "i < 365"
  shows "date_strings sf now ! i = sf (now - 365 + int i)"
proof -
  have "rev [1..365] ! i = [1..365] ! (364 - i)"
    using assms by (simp add: rev_nth)
  also have "\<dots> = 1 + int (364 - i)"
    using assms by (intro nth_upto) simp
  finally have r: "rev [1..365] ! i = 365 - int i"
    using assms by simp
  have e: "now - (365 - int i) = now - 365 + int i"
    by simp
  have "date_strings sf now ! i = sf (now - rev [1..365] ! i)"
    using assms by (simp add: date_strings_def)
  also have "\<dots> = sf (now - 365 + int i)"
    by (simp only: r e)
  finally show ?thesis .
qed

text \<open>
  C1. Forward fill. For a station and a fuel type of its price history, the array built
  over a window of dates is the series of the fill policy started with no last known
  value: at a date that is a key of the fuel type's history the entry is the stored price;
  at any other date it is the price of the latest earlier date of the window that is a
  key, when there is one, and 0 otherwise. This holds for every window, the ascending
  windows of distinct dates among them. For three distinct dates \<open>d1\<close>, \<open>d2\<close>, \<open>d3\<close>:
  the history \<open>{d1: 1.5}\<close> gives \<open>[1.5, 1.5, 1.5]\<close>, the empty history \<open>[0, 0, 0]\<close> and
  the history \<open>{d2: 2.0}\<close> gives \<open>[0, 2.0, 2.0]\<close>. The keys of the price history are
  those of a dict, pairwise distinct.
\<close>

theorem forward_fill_policy:
  assumes "distinct (map fst (gs_gas_price_history gs))"
    and "map_of (gs_gas_price_history gs) fuel_type = Some price_history"
    and "d1 \<noteq> d2" and "d1 \<noteq> d3" and "d2 \<noteq> d3"
  shows "map_of (sj_carburants (station_entry ds gs)) fuel_type
           = Some (forward_fill (map_of price_history) None ds)
     \<and> (\<forall>i<length ds.
          forward_fill (map_of price_history) None ds ! i =
            (case map_of price_history (ds ! i) of
               Some price \<Rightarrow> JFloat price
             | None \<Rightarrow>
                 (case last_known_before (map_of price_history) (take i ds) of
                    Some price \<Rightarrow> JFloat price
                  | None \<Rightarrow> JInt 0)))
     \<and> fill_prices [(d1, Finite (3 / 2))] [d1, d2, d3] []
           = [JFloat (Finite (3 / 2)), JFloat (Finite (3 / 2)), JFloat (Finite (3 / 2))]
     \<and> fill_prices [] [d1, d2, d3] [] = [JInt 0, JInt 0, JInt 0]
     \<and> fill_prices [(d2, Finite 2)] [d1, d2, d3] [] = [JInt 0, JFloat (Finite 2), JFloat (Finite 2)]"
proof (intro conjI allI impI)
  show "map_of (sj_carburants (station_entry ds gs)) fuel_type
          = Some (forward_fill (map_of price_history) None ds)"
    by (simp add: carburants_lookup [OF assms(1)] assms(2) fill_prices_forward_fill)
next
  fix i assume "i < length ds"
  then show "forward_fill (map_of price_history) None ds ! i =
            (case map_of price_history (ds ! i) of
               Some price \<Rightarrow> JFloat price
             | None \<Rightarrow>
                 (case last_known_before (map_of price_history) (take i ds) of
                    Some price \<Rightarrow> JFloat price
                  | None \<Rightarrow> JInt 0))"
    by (simp add: forward_fill_nth emitted_def split: option.splits)
next
  show "fill_prices [(d1, Finite (3 / 2))] [d1, d2, d3] []
           = [JFloat (Finite (3 / 2)), JFloat (Finite (3 / 2)), JFloat (Finite (3 / 2))]"
    using assms(3,4) by simp
next
  show "fill_prices [] [d1, d2, d3] [] = [JInt 0, JInt 0, JInt 0]"
    by simp
next
  show "fill_prices [(d2, Finite 2)] [d1, d2, d3] [] = [JInt 0, JFloat (Finite 2), JFloat (Finite 2)]"
    using assms(3,5) by simp
qed

theorem forward_fill_policy_witness:
  "distinct (map fst (gs_gas_price_history sample_station))
   \<and> map_of (gs_gas_price_history sample_station) (Some ''Gazole'') = Some [(''2023-03-02'', Finite 2)]
   \<and> map_of (sj_carburants (station_entry [''2023-03-01'', ''2023-03-02'', ''2023-03-03''] sample_station))
        (Some ''Gazole'') = Some [JInt 0, JFloat (Finite 2), JFloat (Finite 2)]
   \<and> fill_prices [(''2023-03-01'', Finite (3 / 2))] [''2023-03-01'', ''2023-03-02'', ''2023-03-03''] []
        = [JFloat (Finite (3 / 2)), JFloat (Finite (3 / 2)), JFloat (Finite (3 / 2))]"
  using forward_fill_policy [of sample_station "Some ''Gazole''" "[(''2023-03-02'', Finite 2)]"
      "''2023-03-01''" "''2023-03-02''" "''2023-03-03''" "[''2023-03-01'', ''2023-03-02'', ''2023-03-03'']"]
  by (simp add: sample_station_def)

text \<open>
  C8. For every station handed to \<open>create_json_heatmap\<close> and every fuel type of its price
  history, the output holds an array of length 365 whose entry \<open>i\<close> belongs to the day
  \<open>now - 365 + i\<close>, the oldest day first: it is the price stored for that day, and
  otherwise the entry before it (0 at the first day). A fuel type that is not a key of
  the station's history has no array. The output has one entry per station, in order.
\<close>

theorem series_length_and_order:
  assumes "k < length gas_stations"
    and "distinct (map fst (gs_gas_price_history (gas_stations ! k)))"
  shows "length (create_json_heatmap sf now gas_stations) = length gas_stations
     \<and> (\<forall>fuel_type.
          case map_of (gs_gas_price_history (gas_stations ! k)) fuel_type of
            None \<Rightarrow>
              map_of (sj_carburants (create_json_heatmap sf now gas_stations ! k)) fuel_type = None
          | Some price_history \<Rightarrow>
              (\<exists>out.
                 map_of (sj_carburants (create_json_heatmap sf now gas_stations ! k)) fuel_type
                   = Some out
                 \<and> length out = 365
                 \<and> (\<forall>i<365.
                      out ! i =
                        (case map_of price_history (sf (now - 365 + int i)) of
                           Some price \<Rightarrow> JFloat price
                         | None \<Rightarrow> if i = 0 then JInt 0 else out ! (i - 1)))))"
proof (intro conjI allI)
  show "length (create_json_heatmap sf now gas_stations) = length gas_stations"
    by (simp add: create_json_heatmap_def)
next
  fix fuel_type
  let ?ds = "date_strings sf now"
  have entry: "create_json_heatmap sf now gas_stations ! k = station_entry ?ds (gas_stations ! k)"
    using assms(1) by (simp add: create_json_heatmap_def)
  show "case map_of (gs_gas_price_history (gas_stations ! k)) fuel_type of
            None \<Rightarrow>
              map_of (sj_carburants (create_json_heatmap sf now gas_stations ! k)) fuel_type = None
          | Some price_history \<Rightarrow>
              (\<exists>out.
                 map_of (sj_carburants (create_json_heatmap sf now gas_stations ! k)) fuel_type
                   = Some out
                 \<and> length out = 365
                 \<and> (\<forall>i<365.
                      out ! i =
                        (case map_of price_history (sf (now - 365 + int i)) of
                           Some price \<Rightarrow> JFloat price
                         | None \<Rightarrow> if i = 0 then JInt 0 else out ! (i - 1))))"
  proof (cases "map_of (gs_gas_price_history (gas_stations ! k)) fuel_type")
    case None
    then show ?thesis
      by (simp add: entry carburants_lookup [OF assms(2)])
  next
    case (Some ph)
    let ?out = "forward_fill (map_of ph) None ?ds"
    have 1: "map_of (sj_carburants (create_json_heatmap sf now gas_stations ! k)) fuel_type = Some ?out"
      by (simp add: entry carburants_lookup [OF assms(2)] Some fill_prices_forward_fill)
    have 2: "length ?out = 365"
      by (simp add: length_forward_fill length_date_strings)
    have 3: "?out ! i =
                (case map_of ph (sf (now - 365 + int i)) of
                   Some price \<Rightarrow> JFloat price
                 | None \<Rightarrow> if i = 0 then JInt 0 else ?out ! (i - 1))" if "i < 365" for i
      using forward_fill_step [of i ?ds "map_of ph"] that
      by (simp add: length_date_strings date_strings_nth)
    show ?thesis
      using 1 2 3 Some by auto
  qed
qed

theorem series_length_and_order_witness:
  "\<forall>sf now.
     0 < length [sample_station]
     \<and> distinct (map fst (gs_gas_price_history ([sample_station] ! 0)))
     \<and> length (create_json_heatmap sf now [sample_station]) = 1
     \<and> map_of (sj_carburants (create_json_heatmap sf now [sample_station] ! 0)) (Some ''SP95'') = None
     \<and> (\<exists>out. map_of (sj_carburants (create_json_heatmap sf now [sample_station] ! 0)) (Some ''Gazole'')
                 = Some out \<and> length out = 365)"
proof (intro allI)
  fix sf now
  have k: "0 < length [sample_station]" by simp
  have d: "distinct (map fst (gs_gas_price_history ([sample_station] ! 0)))"
    by (simp add: sample_station_def)
  note t = series_length_and_order [OF k d, of sf now]
  have a: "map_of (gs_gas_price_history ([sample_station] ! 0)) (Some ''SP95'') = None"
    by (simp add: sample_station_def)
  have b: "map_of (gs_gas_price_history ([sample_station] ! 0)) (Some ''Gazole'')
             = Some [(''2023-03-02'', Finite 2)]"
    by (simp add: sample_station_def)
  from t have l: "length (create_json_heatmap sf now [sample_station]) = 1" by simp
  from t have "case map_of (gs_gas_price_history ([sample_station] ! 0)) (Some ''SP95'') of
      None \<Rightarrow> map_of (sj_carburants (create_json_heatmap sf now [sample_station] ! 0)) (Some ''SP95'') = None
    | Some price_history \<Rightarrow> (\<exists>out.
                 map_of (sj_carburants (create_json_heatmap sf now [sample_station] ! 0)) (Some ''SP95'')
                   = Some out
                 \<and> length out = 365
                 \<and> (\<forall>i<365.
                      out ! i =
                        (case map_of price_history (sf (now - 365 + int i)) of
                           Some price \<Rightarrow> JFloat price
                         | None \<Rightarrow> if i = 0 then JInt 0 else out ! (i - 1))))"
    by blast
  then have n: "map_of (sj_carburants (create_json_heatmap sf now [sample_station] ! 0)) (Some ''SP95'') = None"
    by (simp only: a option.case)
  from t have "case map_of (gs_gas_price_history ([sample_station] ! 0)) (Some ''Gazole'') of
      None \<Rightarrow> map_of (sj_carburants (create_json_heatmap sf now [sample_station] ! 0)) (Some ''Gazole'') = None
    | Some price_history \<Rightarrow> (\<exists>out.
                 map_of (sj_carburants (create_json_heatmap sf now [sample_station] ! 0)) (Some ''Gazole'')
                   = Some out
                 \<and> length out = 365
                 \<and> (\<forall>i<365.
                      out ! i =
                        (case map_of price_history (sf (now - 365 + int i)) of
                           Some price \<Rightarrow> JFloat price
                         | None \<Rightarrow> if i = 0 then JInt 0 else out ! (i - 1))))"
    by blast
  then have s: "\<exists>out. map_of (sj_carburants (create_json_heatmap sf now [sample_station] ! 0)) (Some ''Gazole'')
                 = Some out \<and> length out = 365"
    by (simp only: b option.case) blast
  show "0 < length [sample_station]
     \<and> distinct (map fst (gs_gas_price_history ([sample_station] ! 0)))
     \<and> length (create_json_heatmap sf now [sample_station]) = 1
     \<and> map_of (sj_carburants (create_json_heatmap sf now [sample_station] ! 0)) (Some ''SP95'') = None
     \<and> (\<exists>out. map_of (sj_carburants (create_json_heatmap sf now [sample_station] ! 0)) (Some ''Gazole'')
                 = Some out \<and> length out = 365)"
    using k d l n s by blast
qed

subsection \<open>Name lookup\<close>

lemma find_sub_Some: "find_sub pat s = Some (b, a) \<Longrightarrow> s = b @ pat @ a"
proof (induction s arbitrary: b)
  case Nil
  then show ?case by (simp split: if_splits)
next
  case (Cons c s)
  show ?case
  proof (cases "take (length pat) (c # s) = pat")
    case True
    with Cons.prems have "b = []" "a = drop (length pat) (c # s)" by simp_all
    then show ?thesis
      using True append_take_drop_id [of "length pat" "c # s"] by simp
  next
    case False
    with Cons.prems obtain b' where "find_sub pat s = Some (b', a)" "b = c # b'"
      by (auto split: if_splits)
    then show ?thesis using Cons.IH by simp
  qed
qed

lemma find_sub_None: "find_sub pat s = None \<Longrightarrow> s \<noteq> b @ pat @ a"
proof (induction s arbitrary: b)
  case Nil
  then show ?case by (simp split: if_splits)
next
  case (Cons c s)
  from Cons.prems have np: "take (length pat) (c # s) \<noteq> pat" and n: "find_sub pat s = None"
    by (auto split: if_splits)
  show ?case
  proof (cases b)
    case Nil
    show ?thesis
    proof
      assume "c # s = b @ pat @ a"
      then have "take (length pat) (c # s) = pat" using Nil by simp
      with np show False by simp
    qed
  next
    case (Cons c' b')
    show ?thesis
      using Cons.IH [OF n, of b'] Cons by auto
  qed
qed

lemma find_sub_least:
  "find_sub pat s = Some (b, a) \<Longrightarrow> s = b' @ pat @ a' \<Longrightarrow> length b \<le> length b'"
proof (induction s arbitrary: b b')
  case Nil
  then show ?case by (simp split: if_splits)
next
  case (Cons c s)
  show ?case
  proof (cases "take (length pat) (c # s) = pat")
    case True
    with Cons.prems(1) show ?thesis by simp
  next
    case False
    with Cons.prems(1) obtain b0 where b0: "find_sub pat s = Some (b0, a)" "b = c # b0"
      by (auto split: if_splits)
    from False Cons.prems(2) have "b' \<noteq> []" by auto
    then obtain c' b1 where b1: "b' = c' # b1" by (cases b') auto
    with Cons.prems(2) have "s = b1 @ pat @ a'" by simp
    from Cons.IH [OF b0(1) this] show ?thesis using b0 b1 by simp
  qed
qed

lemma find_sub_twice:
  "(\<exists>b rest g a. find_sub P s = Some (b, rest) \<and> find_sub Q rest = Some (g, a))
     \<longleftrightarrow> (\<exists>pre mid post. s = pre @ P @ mid @ Q @ post)"
proof
  assume "\<exists>b rest g a. find_sub P s = Some (b, rest) \<and> find_sub Q rest = Some (g, a)"
  then obtain b rest g a where
    1: "find_sub P s = Some (b, rest)" and 2: "find_sub Q rest = Some (g, a)"
    by blast
  from find_sub_Some [OF 1] find_sub_Some [OF 2]
  have "s = b @ P @ g @ Q @ a" by simp
  then show "\<exists>pre mid post. s = pre @ P @ mid @ Q @ post" by blast
next
  assume "\<exists>pre mid post. s = pre @ P @ mid @ Q @ post"
  then obtain pre mid post where h: "s = pre @ P @ mid @ Q @ post"
    by blast
  have "find_sub P s \<noteq> None"
    using find_sub_None [of P s pre "mid @ Q @ post"] h by blast
  then obtain b rest where 1: "find_sub P s = Some (b, rest)" by auto
  from find_sub_Some [OF 1] have hb: "s = b @ P @ rest" .
  from find_sub_least [OF 1 h] have le: "length b \<le> length pre" .
  have "rest = drop (length b + length P) s" using hb by simp
  also have "\<dots> = drop (length b + length P) ((pre @ P @ mid) @ Q @ post)"
    using h by simp
  also have "\<dots> = drop (length b + length P) (pre @ P @ mid) @ Q @ post"
    using le by simp
  finally have "find_sub Q rest \<noteq> None"
    using find_sub_None [of Q rest "drop (length b + length P) (pre @ P @ mid)" post]
    by blast
  then obtain g a where "find_sub Q rest = Some (g, a)" by auto
  with 1 show "\<exists>b rest g a. find_sub P s = Some (b, rest) \<and> find_sub Q rest = Some (g, a)"
    by blast
qed

lemma search_strong_marker: "search_strong html \<noteq> None \<longleftrightarrow> has_marker html"
proof -
  have "search_strong html \<noteq> None \<longleftrightarrow>
      (\<exists>b rest g a. find_sub ''<strong>'' html = Some (b, rest)
                    \<and> find_sub ''</strong>'' rest = Some (g, a))"
    unfolding search_strong_def by (auto split: option.splits)
  then show ?thesis
    unfolding has_marker_def by (simp only: find_sub_twice)
qed

lemma get_name_station_succeeds: "get_name_station lib i \<noteq> None \<longleftrightarrow> lookup_succeeds lib i"
  using search_strong_marker
  by (auto simp: get_name_station_def lookup_succeeds_def split: reply.splits)

lemma futures_fold:
  assumes "length fs = length xs"
  shows "length (fold (\<lambda>i fs. if i < length xs then fs[i := Some (fn (xs ! i))] else fs) cs fs)
           = length xs
     \<and> (\<forall>j<length xs.
          fold (\<lambda>i fs. if i < length xs then fs[i := Some (fn (xs ! i))] else fs) cs fs ! j
            = (if j \<in> set cs then Some (fn (xs ! j)) else fs ! j))"
  using assms
proof (induction cs arbitrary: fs)
  case Nil
  then show ?case by simp
next
  case (Cons i cs)
  let ?fs = "if i < length xs then fs[i := Some (fn (xs ! i))] else fs"
  have l: "length ?fs = length xs" using Cons.prems by simp
  from Cons.IH [OF l] show ?case
    using Cons.prems by (auto simp: nth_list_update)
qed

lemma executor_map_complete:
  assumes "set completion = {..<length xs}"
  shows "executor_map fn xs completion = Some (map fn xs)"
proof -
  let ?r = "fold (\<lambda>i fs. if i < length xs then fs[i := Some (fn (xs ! i))] else fs)
              completion (replicate (length xs) None)"
  have f: "length ?r = length xs \<and> (\<forall>j<length xs. ?r ! j = (if j \<in> set completion then Some (fn (xs ! j)) else replicate (length xs) None ! j))"
    by (rule futures_fold) simp
  then have "?r = map (\<lambda>x. Some (fn x)) xs"
    using assms by (intro nth_equalityI) auto
  then show ?thesis
    by (simp add: executor_map_def list_all_iff comp_def)
qed

lemma count_resolved:
  "length (filter (\<lambda>(i, name). name \<noteq> None) (map (get_station_name lib) ids))
     = length (filter (lookup_succeeds lib) ids)"
proof (induction ids)
  case Nil
  show ?case by simp
next
  case (Cons i ids)
  have "(snd (get_station_name lib i) \<noteq> None) = lookup_succeeds lib i"
    by (simp only: get_station_name_def snd_conv get_name_station_succeeds)
  then show ?case
    using Cons.IH by (simp add: case_prod_beta)
qed

text \<open>
  C6. Name resolution. Whatever the order in which the lookups complete, once all have
  completed the pool returns, and its result pairs every id with the outcome of the
  lookup of that id, in the order of the ids: no id receives the name of another. A
  lookup has no name exactly when it fails: an exception of the request (a network error
  or a timeout), a status other than 200 or a text without the marker; a failure is a
  missing name, never an error. The number of entries with a name is the number of ids
  whose lookup succeeds.
\<close>

theorem name_resolution:
  assumes "set completion = {..<length ids}"
  shows "executor_map (get_station_name lib) ids completion = Some (map (get_station_name lib) ids)
     \<and> (\<forall>k<length ids.
          map (get_station_name lib) ids ! k = (ids ! k, get_name_station lib (ids ! k)))
     \<and> (\<forall>i. (get_name_station lib i = None) = (\<not> lookup_succeeds lib i))
     \<and> length (filter (\<lambda>(i, name). name \<noteq> None) (map (get_station_name lib) ids))
         = length (filter (lookup_succeeds lib) ids)"
proof (intro conjI allI impI)
  show "executor_map (get_station_name lib) ids completion = Some (map (get_station_name lib) ids)"
    using assms by (rule executor_map_complete)
next
  fix k assume "k < length ids"
  then show "map (get_station_name lib) ids ! k = (ids ! k, get_name_station lib (ids ! k))"
    by (simp add: get_station_name_def)
next
  fix i
  show "(get_name_station lib i = None) = (\<not> lookup_succeeds lib i)"
    using get_name_station_succeeds [of lib i] by blast
next
  show "length (filter (\<lambda>(i, name). name \<noteq> None) (map (get_station_name lib) ids))
         = length (filter (lookup_succeeds lib) ids)"
    by (rule count_resolved)
qed

theorem name_resolution_witness:
  "set [2, 0, 3, 1] = {..<length [1000002, 1000001, 1000003, 1000004 :: int]}
   \<and> executor_map (get_station_name sample_lib) [1000002, 1000001, 1000003, 1000004] [2, 0, 3, 1]
        = Some [(1000002, None), (1000001, Some ''Station A''), (1000003, None), (1000004, None)]"
proof -
  have s: "set [2, 0, 3, 1] = {..<length [1000002, 1000001, 1000003, 1000004 :: int]}"
    by (simp add: lessThan_nat_numeral lessThan_Suc insert_commute eval_nat_numeral)
  have m: "map (get_station_name sample_lib) [1000002, 1000001, 1000003, 1000004]
          = [(1000002, None), (1000001, Some ''Station A''), (1000003, None), (1000004, None)]"
    by (simp add: get_station_name_def get_name_station_def sample_lib_def search_strong_def)
  from name_resolution [OF s, of sample_lib]
  have "executor_map (get_station_name sample_lib) [1000002, 1000001, 1000003, 1000004] [2, 0, 3, 1]
          = Some (map (get_station_name sample_lib) [1000002, 1000001, 1000003, 1000004])"
    by (rule conjunct1)
  then show ?thesis
    using s by (simp only: m simp_thms)
qed

subsection \<open>Price history\<close>

lemma history_lookup_record_price:
  "history_lookup (record_price f d p h) ft dt =
     (if ft = f \<and> dt = d then Some p else history_lookup h ft dt)"
  by (auto simp: history_lookup_def record_price_def update_conv' split: option.splits)

lemma last_write_Cons:
  "last_write ((f, d, p) # us) ft dt =
     (case last_write us ft dt of
        Some q \<Rightarrow> Some q
      | None \<Rightarrow> if f = ft \<and> d = dt then Some p else None)"
proof (cases "rev (filter (\<lambda>(f, d, p). f = ft \<and> d = dt) us)")
  case Nil
  then show ?thesis by (simp add: last_write_def)
next
  case (Cons x xs)
  obtain f' d' p' where "x = (f', d', p')" by (cases x)
  with Cons show ?thesis by (simp add: last_write_def)
qed

lemma parse_prices_last_write:
  "parse_prices lib ps h0 = Inr h \<Longrightarrow>
   \<exists>updates. map (parse_prix lib) (filter (\<lambda>p. elem_attrib p \<noteq> []) ps) = map Inr updates
     \<and> (\<forall>ft dt. history_lookup h ft dt =
           (case last_write updates ft dt of Some q \<Rightarrow> Some q | None \<Rightarrow> history_lookup h0 ft dt))"
proof (induction ps arbitrary: h0)
  case Nil
  then show ?case by (simp add: last_write_def)
next
  case (Cons p ps)
  show ?case
  proof (cases "elem_attrib p = []")
    case True
    with Cons.prems have "parse_prices lib ps h0 = Inr h" by simp
    from Cons.IH [OF this] True show ?thesis by simp
  next
    case False
    with Cons.prems obtain f d pr where
      pp: "parse_prix lib p = Inr (f, d, pr)" and
      rest: "parse_prices lib ps (record_price f d pr h0) = Inr h"
      by (auto split: sum.splits)
    from Cons.IH [OF rest] obtain us where
      us: "map (parse_prix lib) (filter (\<lambda>p. elem_attrib p \<noteq> []) ps) = map Inr us" and
      lk: "\<And>ft dt. history_lookup h ft dt =
           (case last_write us ft dt of Some q \<Rightarrow> Some q
            | None \<Rightarrow> history_lookup (record_price f d pr h0) ft dt)"
      by blast
    have 1: "map (parse_prix lib) (filter (\<lambda>p. elem_attrib p \<noteq> []) (p # ps)) = map Inr ((f, d, pr) # us)"
      using False pp us by simp
    have 2: "history_lookup h ft dt =
           (case last_write ((f, d, pr) # us) ft dt of Some q \<Rightarrow> Some q
            | None \<Rightarrow> history_lookup h0 ft dt)" for ft dt
      by (simp add: lk last_write_Cons history_lookup_record_price split: option.splits)
    from 1 2 show ?thesis by blast
  qed
qed

lemma record_price_distinct:
  "distinct (map fst h) \<Longrightarrow> distinct (map fst (record_price f d p h))"
  by (simp add: record_price_def distinct_update split: option.splits)

lemma parse_prices_distinct:
  "parse_prices lib ps h0 = Inr h \<Longrightarrow> distinct (map fst h0) \<Longrightarrow> distinct (map fst h)"
proof (induction ps arbitrary: h0)
  case Nil
  then show ?case by simp
next
  case (Cons p ps)
  show ?case
  proof (cases "elem_attrib p = []")
    case True
    with Cons show ?thesis by simp
  next
    case False
    with Cons.prems(1) obtain f d pr where
      "parse_prices lib ps (record_price f d pr h0) = Inr h"
      by (auto split: sum.splits)
    then show ?thesis
      using Cons.IH record_price_distinct [OF Cons.prems(2)] by blast
  qed
qed

lemma parse_station_history:
  assumes "parse_station lib ao pdv sn = Inr (Some g, ao')"
  shows "parse_prices lib (elem_findall ''prix'' pdv) [] = Inr (gs_gas_price_history g)"
  using assms
  by (auto simp: parse_station_def split: option.splits sum.splits prod.splits)

text \<open>
  The fuel types of an assembled station are pairwise distinct, as the keys of a dict are:
  what the theorems on the daily series assume of a price history.
\<close>

lemma assembled_history_distinct:
  assumes "parse_station lib ao pdv sn = Inr (Some g, ao')"
  shows "distinct (map fst (gs_gas_price_history g))"
  using parse_prices_distinct [OF parse_station_history [OF assms]] by simp

text \<open>
  C9. Last write wins. When a record is assembled into a station, every \<open>prix\<close> child
  with attributes has been read as an update (fuel type, date, price), and the price
  history of the station holds, for every fuel type and date, the price of the last
  update of the record's list with that fuel type and date (and nothing for a pair
  without update): of several updates for the same pair the last one in the order of the
  record is stored.
\<close>

theorem last_write_wins:
  assumes "parse_station lib always_open pdv sn = Inr (Some gas_station, always_open')"
  shows "\<exists>updates. price_updates lib pdv = map Inr updates
     \<and> (\<forall>fuel_type date.
          history_lookup (gs_gas_price_history gas_station) fuel_type date
            = last_write updates fuel_type date)"
proof -
  from parse_prices_last_write [OF parse_station_history [OF assms]]
  obtain updates where
    1: "map (parse_prix lib) (filter (\<lambda>p. elem_attrib p \<noteq> []) (elem_findall ''prix'' pdv))
          = map Inr updates"
    and
    2: "\<And>ft dt. history_lookup (gs_gas_price_history gas_station) ft dt =
           (case last_write updates ft dt of Some q \<Rightarrow> Some q | None \<Rightarrow> history_lookup [] ft dt)"
    by blast
  have e: "history_lookup [] ft dt = None" for ft dt
    by (simp add: history_lookup_def)
  have "history_lookup (gs_gas_price_history gas_station) ft dt = last_write updates ft dt" for ft dt
    unfolding 2 e by (simp split: option.splits)
  with 1 show ?thesis
    unfolding price_updates_def by blast
qed

lemmas sample_eval =
  sample_pdv_def sample_horaires_def sample_prix_def sample_lib_def sample_day_without_horaire_def
  sample_record_def sample_record_plain_def sample_record_bad_price_def sample_record_bad_date_def
  sample_record_bad_hours_def sample_assembled_def

lemmas station_eval =
  parse_station_def mandatory_fields_def parse_horaires_def parse_day_def parse_prix_def
  record_price_def elem_get_def elem_find_def elem_findall_def int_of_str_def
  get_coordinate_eval

lemmas data_eval =
  parse_data_def executor_map_def maxx_def get_station_name_def get_name_station_def
  search_strong_def station_eval

lemma sample_record_assembled:
  "parse_station sample_lib None sample_record (1000001, Some ''Station A'')
     = Inr (Some sample_assembled, Some True)"
  by (simp add: sample_eval station_eval)

theorem last_write_wins_witness:
  "parse_station sample_lib None sample_record (1000001, Some ''Station A'')
     = Inr (Some sample_assembled, Some True)
   \<and> price_updates sample_lib sample_record
       = map Inr [(Some ''Gazole'', ''2023-03-01'', Finite (9 / 5)),
                  (Some ''Gazole'', ''2023-03-01'', Finite (37 / 20)),
                  (Some ''SP95'', ''2023-03-02'', Finite (19 / 10))]
   \<and> history_lookup (gs_gas_price_history sample_assembled) (Some ''Gazole'') ''2023-03-01''
       = Some (Finite (37 / 20))"
proof -
  from last_write_wins [OF sample_record_assembled]
  obtain updates where u: "price_updates sample_lib sample_record = map Inr updates"
    and l: "history_lookup (gs_gas_price_history sample_assembled) (Some ''Gazole'') ''2023-03-01''
              = last_write updates (Some ''Gazole'') ''2023-03-01''"
    by blast
  have p: "price_updates sample_lib sample_record
       = map Inr [(Some ''Gazole'', ''2023-03-01'', Finite (9 / 5)),
                  (Some ''Gazole'', ''2023-03-01'', Finite (37 / 20)),
                  (Some ''SP95'', ''2023-03-02'', Finite (19 / 10))]"
    by (simp add: price_updates_def sample_eval station_eval)
  from u p have "map Inr updates
       = map (Inr :: _ \<Rightarrow> pyerror + _) [(Some ''Gazole'', ''2023-03-01'', Finite (9 / 5)),
                  (Some ''Gazole'', ''2023-03-01'', Finite (37 / 20)),
                  (Some ''SP95'', ''2023-03-02'', Finite (19 / 10))]"
    by (rule trans [OF sym])
  then have "updates = [(Some ''Gazole'', ''2023-03-01'', Finite (9 / 5)),
                  (Some ''Gazole'', ''2023-03-01'', Finite (37 / 20)),
                  (Some ''SP95'', ''2023-03-02'', Finite (19 / 10))]"
    by (simp only: inj_map_eq_map [OF inj_Inr])
  with l have "history_lookup (gs_gas_price_history sample_assembled) (Some ''Gazole'') ''2023-03-01''
       = Some (Finite (37 / 20))"
    by (simp add: last_write_def)
  with sample_record_assembled p show ?thesis by blast
qed

subsection \<open>Opening hours\<close>

lemma parse_day_has_times:
  "parse_day lib day = Inr r \<Longrightarrow> needs_times day \<Longrightarrow> has_times lib day"
  by (auto simp: parse_day_def needs_times_def has_times_def
           split: sum.splits option.splits if_splits)

lemma parse_days_have_times:
  "parse_days lib days acc = Inr sched \<Longrightarrow> day \<in> set days \<Longrightarrow> needs_times day
     \<Longrightarrow> has_times lib day"
proof (induction days arbitrary: acc)
  case Nil
  then show ?case by simp
next
  case (Cons d days)
  from Cons.prems(1) obtain i hr where
    d: "parse_day lib d = Inr (i, hr)" and
    rest: "parse_days lib days (AList.update i hr acc) = Inr sched"
    by (auto split: sum.splits)
  show ?case
  proof (cases "day = d")
    case True
    with d Cons.prems(3) show ?thesis by (simp add: parse_day_has_times)
  next
    case False
    with Cons.prems(2) have "day \<in> set days" by simp
    from Cons.IH [OF rest this Cons.prems(3)] show ?thesis .
  qed
qed

lemma parse_days_raises:
  assumes "day \<in> set days" and "needs_times day" and "\<not> has_times lib day"
  shows "\<exists>e. parse_days lib days acc = Inl e"
proof (cases "parse_days lib days acc")
  case (Inl e)
  then show ?thesis by blast
next
  case (Inr sched)
  from parse_days_have_times [OF Inr assms(1,2)] assms(3) show ?thesis by simp
qed

lemma parse_station_raises:
  assumes "mandatory_fields pdv \<noteq> None"
    and "elem_find ''horaires'' pdv = Some h"
    and "parse_days lib (elem_children h) [] = Inl e"
  shows "parse_station lib always_open pdv sn = Inl e"
  using assms
  by (auto simp: parse_station_def parse_horaires_def split: option.splits prod.splits)

text \<open>
  C10. The opening hours are read without error only when every day that is not marked
  closed and has an \<open>ouverture\<close> child also has a \<open>horaire\<close> child whose opening and
  closing times are present and parse. A record whose mandatory fields decode and whose
  opening hours hold a day that is not marked closed, has an \<open>ouverture\<close> child and lacks
  such a \<open>horaire\<close> child is neither assembled nor skipped: reading it raises an error,
  and the error ends the loop over the records.
\<close>

theorem opening_hours_need_horaire:
  "(parse_days lib days acc = Inr sched \<longrightarrow>
      (\<forall>day\<in>set days. needs_times day \<longrightarrow> has_times lib day))
   \<and> (mandatory_fields pdv \<noteq> None \<and> elem_find ''horaires'' pdv = Some h
        \<and> day \<in> set (elem_children h) \<and> needs_times day \<and> \<not> has_times lib day \<longrightarrow>
      (\<exists>e. parse_station lib always_open pdv sn = Inl e
            \<and> stations_loop lib ((pdv, sn) # rest) gas_stations always_open count = Inl e))"
proof (intro conjI impI ballI)
  fix d
  assume "parse_days lib days acc = Inr sched" "d \<in> set days" "needs_times d"
  then show "has_times lib d" by (rule parse_days_have_times)
next
  assume a: "mandatory_fields pdv \<noteq> None \<and> elem_find ''horaires'' pdv = Some h
        \<and> day \<in> set (elem_children h) \<and> needs_times day \<and> \<not> has_times lib day"
  then obtain e where e: "parse_days lib (elem_children h) [] = Inl e"
    using parse_days_raises [of day "elem_children h" lib "[]"] by blast
  from a have "parse_station lib always_open pdv sn = Inl e"
    using parse_station_raises [OF _ _ e] by blast
  then show "\<exists>e. parse_station lib always_open pdv sn = Inl e
            \<and> stations_loop lib ((pdv, sn) # rest) gas_stations always_open count = Inl e"
    by simp
qed

theorem opening_hours_need_horaire_witness:
  "parse_days sample_lib (elem_children sample_horaires) []
     = Inr [(1, Some \<lparr>hour_start = (8, 0), hour_end = (20, 30)\<rparr>), (7, None)]
   \<and> list_all (has_times sample_lib) (filter needs_times (elem_children sample_horaires))
   \<and> filter needs_times (elem_children sample_horaires) \<noteq> []
   \<and> mandatory_fields sample_record_bad_hours \<noteq> None
   \<and> elem_find ''horaires'' sample_record_bad_hours
       = Some (Element ''horaires'' [] None [sample_day_without_horaire])
   \<and> needs_times sample_day_without_horaire
   \<and> \<not> has_times sample_lib sample_day_without_horaire
   \<and> parse_station sample_lib None sample_record_bad_hours (1000004, None) = Inl AttributeError
   \<and> stations_loop sample_lib [(sample_record_bad_hours, 1000004, None)] [] None 0
       = Inl AttributeError"
proof -
  have 1: "parse_days sample_lib (elem_children sample_horaires) []
     = Inr [(1, Some \<lparr>hour_start = (8, 0), hour_end = (20, 30)\<rparr>), (7, None)]"
    by (simp add: sample_eval station_eval)
  have 2: "mandatory_fields sample_record_bad_hours \<noteq> None"
    by (simp add: sample_eval station_eval)
  have 3: "elem_find ''horaires'' sample_record_bad_hours
       = Some (Element ''horaires'' [] None [sample_day_without_horaire])"
    by (simp add: sample_eval station_eval)
  have 4: "needs_times sample_day_without_horaire"
    by (simp add: sample_eval needs_times_def elem_get_def elem_find_def)
  have 5: "\<not> has_times sample_lib sample_day_without_horaire"
    by (simp add: sample_eval has_times_def elem_get_def elem_find_def)
  have 6: "parse_station sample_lib None sample_record_bad_hours (1000004, None) = Inl AttributeError"
    by (simp add: sample_eval station_eval)
  have 7: "filter needs_times (elem_children sample_horaires) \<noteq> []"
    by (simp add: sample_eval needs_times_def elem_get_def elem_find_def)
  note t = opening_hours_need_horaire [of sample_lib "elem_children sample_horaires" "[]"
      "[(1, Some \<lparr>hour_start = (8, 0), hour_end = (20, 30)\<rparr>), (7, None)]"
      sample_record_bad_hours "Element ''horaires'' [] None [sample_day_without_horaire]"
      sample_day_without_horaire None "(1000004, None)" "[]" "[]" 0]
  from t 1 have 8: "list_all (has_times sample_lib) (filter needs_times (elem_children sample_horaires))"
    by (simp add: list_all_iff)
  from t 2 3 4 5 obtain e where
    "parse_station sample_lib None sample_record_bad_hours (1000004, None) = Inl e"
    "stations_loop sample_lib [(sample_record_bad_hours, 1000004, None)] [] None 0 = Inl e"
    by auto
  with 6 have 9: "stations_loop sample_lib [(sample_record_bad_hours, 1000004, None)] [] None 0
       = Inl AttributeError"
    by simp
  from 1 2 3 4 5 6 7 8 9 show ?thesis by blast
qed

subsection \<open>Runs of \<open>parse_data\<close>\<close>

text \<open>
  C4, on the code. In a run over two records, the first with opening hours that carry
  the marker \<open>automate-24-24\<close> and the second without opening hours, the station of the
  second record has no opening hours and \<open>is_always_open\<close> true: line 95 assigns the
  variable \<open>always_open\<close>, which the first record has set.
\<close>

theorem always_open_left_from_previous_record:
  "elem_find ''horaires'' sample_record_plain = None
   \<and> map_option (map_sum id (map (\<lambda>g. (gs_id g, gs_opening_hours g, gs_is_always_open g))))
        (parse_data sample_lib [1, 0] [sample_record, sample_record_plain])
     = Some (Inr [(1000001,
                   Some (OpeningHours [(1, Some \<lparr>hour_start = (8, 0), hour_end = (20, 30)\<rparr>),
                                       (7, None)]),
                   True),
                  (1000002, None, True)])"
  by (simp add: sample_eval data_eval)

text \<open>
  C5, on the code. A record whose price is not a number, or whose update date does not
  exist, ends the run with ValueError, and the well-formed record after it is not
  assembled; alone, that record is assembled into its station.
\<close>

theorem bad_price_ends_the_run:
  "parse_data sample_lib [0, 1] [sample_record_bad_price, sample_record] = Some (Inl ValueError)
   \<and> parse_data sample_lib [0, 1] [sample_record_bad_date, sample_record] = Some (Inl ValueError)
   \<and> parse_data sample_lib [0] [sample_record] = Some (Inr [sample_assembled])"
  by (simp add: sample_eval data_eval)

text \<open>
  C7, on the code. A single record whose address, city and coordinates decode and which
  has no opening hours produces no station: the run ends with UnboundLocalError at
  line 95, where \<open>always_open\<close> is read before any record has assigned it.
\<close>

theorem record_without_hours_ends_the_run:
  "mandatory_fields sample_record_plain
     = Some (Some ''1 rue de la Gare'', Finite (46201 / 1000), Finite (2599 / 500),
             Some ''01000'', Some ''Bourg'')
   \<and> parse_data sample_lib [0] [sample_record_plain] = Some (Inl UnboundLocalError)"
  by (simp add: sample_eval data_eval)

end
